theory Spec2Isabelle
  imports Main
begin

section \<open>Values, errors and the local file system\<close>

text \<open>
  The client is Python. Every way a call can end other than by returning is a value of
  \<open>exn\<close>: \<open>sys.exit(msg)\<close> raises \<open>SystemExit\<close>; a request that fails in the transport
  (\<open>raise_for_status\<close>, a broken connection, a reply that is not of the documented shape)
  is \<open>RequestError\<close>; \<open>os.listdir\<close>, \<open>os.path.getsize\<close> and \<open>open\<close> raise \<open>OSError\<close>;
  \<open>ThreadPoolExecutor\<close> raises \<open>ValueError\<close> for a worker count that is not positive;
  the interpreter raises \<open>RecursionError\<close> when \<open>main\<close> is nested deeper than it allows.
\<close>

datatype exn = SystemExit string | RequestError | OSError | ValueError | RecursionError

text \<open>One entry of a search reply: the fields \<open>id\<close>, \<open>name\<close>, \<open>type\<close> and \<open>pid\<close>.\<close>

record entry =
  entry_id :: int
  entry_name :: string
  entry_type :: string
  entry_pid :: int

text \<open>
  The argument object handed to \<open>TeleboxImpl.main\<close>. \<open>basefolder\<close> is \<open>None\<close> when the
  option was not given; the command line parser is not part of the sources, the field is
  taken as the integer it stands for.
\<close>

record arguments =
  dir :: string
  foldername :: string
  basefolder :: "int option"

text \<open>The two settings of \<open>Config\<close> that the driver reads.\<close>

record config =
  telebox_basefolder :: int
  usr_limit_concurrent :: int

text \<open>
  The local file system is read only, through \<open>os.listdir\<close>, \<open>os.path.isfile\<close>,
  \<open>os.path.isdir\<close>, \<open>os.path.getsize\<close> and the MD5 digest of the first 10 MiB of a file.
  A path is the string the code builds. A file is known by its size and by that digest
  (the hexadecimal string \<open>get_md5_of_first_10mb\<close> returns); a directory by the names
  \<open>os.listdir\<close> returns, in that order. The file system does not change during a run.
\<close>

datatype node = File nat string | Dir "string list"

type_synonym filesystem = "string \<Rightarrow> node option"

definition listdir :: "filesystem \<Rightarrow> string \<Rightarrow> exn + string list" where
  "listdir fs p = (case fs p of Some (Dir names) \<Rightarrow> Inr names | _ \<Rightarrow> Inl OSError)"

definition isfile :: "filesystem \<Rightarrow> string \<Rightarrow> bool" where
  "isfile fs p = (case fs p of Some (File _ _) \<Rightarrow> True | _ \<Rightarrow> False)"

definition isdir :: "filesystem \<Rightarrow> string \<Rightarrow> bool" where
  "isdir fs p = (case fs p of Some (Dir _) \<Rightarrow> True | _ \<Rightarrow> False)"

text \<open>
  \<open>upload_file\<close> reads the size and then opens the file for the digest. On a path that is
  not a regular file one of the two raises before any request is sent.
\<close>

definition getsize :: "filesystem \<Rightarrow> string \<Rightarrow> exn + nat" where
  "getsize fs p = (case fs p of Some (File sz _) \<Rightarrow> Inr sz | _ \<Rightarrow> Inl OSError)"

definition get_md5_of_first_10mb :: "filesystem \<Rightarrow> string \<Rightarrow> exn + string" where
  "get_md5_of_first_10mb fs p = (case fs p of Some (File _ h) \<Rightarrow> Inr h | _ \<Rightarrow> Inl OSError)"

text \<open>\<open>os.path.join\<close> with two arguments and \<open>os.path.basename\<close>, as \<open>posixpath\<close> has them.\<close>

definition path_join :: "string \<Rightarrow> string \<Rightarrow> string" where
  "path_join a b =
     (if b \<noteq> [] \<and> hd b = CHR ''/'' then b
      else if a = [] \<or> last a = CHR ''/'' then a @ b
      else a @ ''/'' @ b)"

definition basename :: "string \<Rightarrow> string" where
  "basename p = rev (takeWhile (\<lambda>c. c \<noteq> CHR ''/'') (rev p))"

section \<open>The remote service and the record of a run\<close>

text \<open>
  The remote service is outside the repository. It is a parameter: a state of any type
  \<open>'r\<close> and one reply function per endpoint. A search only reads the state; the other
  endpoints may change it. A reply is \<open>Inl\<close> when the request raises, and otherwise
  carries the fields the client reads: the \<open>list\<close> of a search (\<open>None\<close> when the field is
  not a list), \<open>status\<close> and \<open>dirId\<close> of a folder creation, \<open>status\<close> and \<open>signUrl\<close>
  of the prepare phase, \<open>status\<close> and \<open>itemId\<close> of the finish phase.
\<close>

record 'r service =
  search_reply :: "int \<Rightarrow> string \<Rightarrow> nat \<Rightarrow> nat \<Rightarrow> 'r \<Rightarrow> exn + entry list option"
  create_reply :: "int \<Rightarrow> string \<Rightarrow> 'r \<Rightarrow> (exn + int \<times> int) \<times> 'r"
  prepare_reply :: "string \<Rightarrow> nat \<Rightarrow> 'r \<Rightarrow> (exn + int \<times> string) \<times> 'r"
  put_reply :: "string \<Rightarrow> string \<Rightarrow> 'r \<Rightarrow> (exn + unit) \<times> 'r"
  finish_reply :: "string \<Rightarrow> nat \<Rightarrow> int \<Rightarrow> string \<Rightarrow> 'r \<Rightarrow> (exn + int \<times> int) \<times> 'r"

text \<open>
  What a run does is recorded as a list of events, oldest first: every request with the
  parameters that vary and the reply it got, and every call of \<open>upload_file\<close> with the
  local path and the target folder.
\<close>

datatype event =
    Search int string nat nat "exn + entry list option"
  | Create int string "exn + int \<times> int"
  | UploadFile string int
  | Prepare string nat "exn + int \<times> string"
  | Put string string "exn + unit"
  | Finish string nat int string "exn + int \<times> int"

text \<open>
  The state of the world: the remote service, the events so far, and the store of
  argument objects. An object is named by its address, so that two variables bound to the
  same object (\<open>args2 = arguments\<close>) are the same address.
\<close>

record 'r world =
  remote :: 'r
  trace :: "event list"
  objs :: "nat \<Rightarrow> arguments"

definition emit :: "event \<Rightarrow> 'r world \<Rightarrow> 'r world" where
  "emit e st = st\<lparr>trace := trace st @ [e]\<rparr>"

section \<open>The client: \<open>telebox/__init__.py\<close>\<close>

text \<open>\<open>Search.search\<close>: one GET with \<open>pageNo\<close> 1 and \<open>pageSize\<close> 50.\<close>

definition search :: "'r service \<Rightarrow> string \<Rightarrow> int \<Rightarrow> 'r world \<Rightarrow> (exn + entry list option) \<times> 'r world" where
  "search api filename folder_id st =
     (let lot = search_reply api folder_id filename 1 50 (remote st)
      in (lot, emit (Search folder_id filename 1 50 lot) st))"

text \<open>
  \<open>Search.folder_exists\<close> returns the \<open>id\<close> of the first entry, or \<open>False\<close>; \<open>None\<close>
  stands for \<open>False\<close>.
\<close>

definition folder_exists :: "'r service \<Rightarrow> string \<Rightarrow> int \<Rightarrow> 'r world \<Rightarrow> (exn + int option) \<times> 'r world" where
  "folder_exists api filename folder_id st =
     (case search api filename folder_id st of
        (Inl e, st1) \<Rightarrow> (Inl e, st1)
      | (Inr lot, st1) \<Rightarrow>
          (case lot of
             Some (x # xs) \<Rightarrow>
               (Inr (if entry_type x = ''dir'' \<and> entry_pid x = folder_id
                     then Some (entry_id x) else None), st1)
           | _ \<Rightarrow> (Inr None, st1)))"

text \<open>\<open>Folder.create\<close>.\<close>

definition create :: "'r service \<Rightarrow> string \<Rightarrow> int \<Rightarrow> 'r world \<Rightarrow> (exn + int) \<times> 'r world" where
  "create api filename destination_folder_id st =
     (case create_reply api destination_folder_id filename (remote st) of
        (lot, r) \<Rightarrow>
          (let st1 = emit (Create destination_folder_id filename lot) (st\<lparr>remote := r\<rparr>)
           in case lot of
                Inl e \<Rightarrow> (Inl e, st1)
              | Inr (status, dirId) \<Rightarrow>
                  if status \<noteq> 1
                  then (Inl (SystemExit ''Execution stopped. Cannot create folders''), st1)
                  else (Inr dirId, st1)))"

text \<open>\<open>Upload.prepare\<close>, \<open>Upload.upload\<close> and \<open>Upload.finish_upload\<close>.\<close>

definition prepare :: "'r service \<Rightarrow> string \<Rightarrow> nat \<Rightarrow> 'r world \<Rightarrow> (exn + int \<times> string) \<times> 'r world" where
  "prepare api file_md5_of_pre_10m file_size st =
     (case prepare_reply api file_md5_of_pre_10m file_size (remote st) of
        (lot, r) \<Rightarrow> (lot, emit (Prepare file_md5_of_pre_10m file_size lot) (st\<lparr>remote := r\<rparr>)))"

definition upload :: "'r service \<Rightarrow> filesystem \<Rightarrow> string \<Rightarrow> string \<Rightarrow> 'r world \<Rightarrow> (exn + unit) \<times> 'r world" where
  "upload api fs url file st =
     (case getsize fs file of
        Inl e \<Rightarrow> (Inl e, st)
      | Inr sz \<Rightarrow>
          (case put_reply api url file (remote st) of
             (response, r) \<Rightarrow> (response, emit (Put url file response) (st\<lparr>remote := r\<rparr>))))"

definition finish_upload :: "'r service \<Rightarrow> string \<Rightarrow> nat \<Rightarrow> int \<Rightarrow> string \<Rightarrow> 'r world \<Rightarrow> (exn + int \<times> int) \<times> 'r world" where
  "finish_upload api file_md5_of_pre_10m file_size pid name st =
     (case finish_reply api file_md5_of_pre_10m file_size pid name (remote st) of
        (lot, r) \<Rightarrow> (lot, emit (Finish file_md5_of_pre_10m file_size pid name lot) (st\<lparr>remote := r\<rparr>)))"

text \<open>\<open>Upload.upload_file\<close>.\<close>

definition upload_file :: "'r service \<Rightarrow> filesystem \<Rightarrow> string \<Rightarrow> int \<Rightarrow> 'r world \<Rightarrow> (exn + int) \<times> 'r world" where
  "upload_file api fs file folder_id st =
     (let st0 = emit (UploadFile file folder_id) st in
      case getsize fs file of
        Inl e \<Rightarrow> (Inl e, st0)
      | Inr file_size \<Rightarrow>
      (case get_md5_of_first_10mb fs file of
        Inl e \<Rightarrow> (Inl e, st0)
      | Inr file_md5_of_pre_10m \<Rightarrow>
      (case prepare api file_md5_of_pre_10m file_size st0 of
        (Inl e, st1) \<Rightarrow> (Inl e, st1)
      | (Inr (status, signUrl), st1) \<Rightarrow>
          if status = 600 then (Inr 1, st1)
          else if status \<noteq> 1
          then (Inl (SystemExit ''Prepare: Execution stopped. Cannot upload files''), st1)
          else
          (case upload api fs signUrl file st1 of
             (Inl e, st2) \<Rightarrow> (Inl e, st2)
           | (Inr _, st2) \<Rightarrow>
          (case finish_upload api file_md5_of_pre_10m file_size folder_id (basename file) st2 of
             (Inl e, st3) \<Rightarrow> (Inl e, st3)
           | (Inr (fstatus, itemId), st3) \<Rightarrow>
               if fstatus \<noteq> 1
               then (Inl (SystemExit ''Finish Upload: Execution stopped. Cannot upload files''), st3)
               else (Inr itemId, st3))))))"

section \<open>The driver: \<open>app/teleboximp.py\<close>\<close>

text \<open>
  \<open>create_folder_if_not_exists\<close> (its parameter \<open>foldername\<close> is \<open>fname\<close> here, the
  name being taken by the field of the argument object). The test \<open>not (pid := ...)\<close> holds for \<open>False\<close> and
  for the identifier 0.
\<close>

definition create_folder_if_not_exists :: "'r service \<Rightarrow> string \<Rightarrow> int \<Rightarrow> 'r world \<Rightarrow> (exn + int) \<times> 'r world" where
  "create_folder_if_not_exists api fname folder_id st =
     (case folder_exists api fname folder_id st of
        (Inl e, st1) \<Rightarrow> (Inl e, st1)
      | (Inr found, st1) \<Rightarrow>
          (case found of
             Some pid \<Rightarrow> if pid \<noteq> 0 then (Inr pid, st1) else create api fname folder_id st1
           | None \<Rightarrow> create api fname folder_id st1))"

text \<open>
  \<open>upload_file_and_print_status\<close>; the progress line it prints is not modelled, the
  ordinal and the total only feed that line.
\<close>

definition upload_file_and_print_status :: "'r service \<Rightarrow> filesystem \<Rightarrow> nat \<Rightarrow> nat \<Rightarrow> string \<Rightarrow> string \<Rightarrow> int \<Rightarrow> 'r world \<Rightarrow> (exn + int) \<times> 'r world" where
  "upload_file_and_print_status api fs i len_list directory file subfolder_pid st =
     upload_file api fs (directory @ ''/'' @ file) subfolder_pid st"

text \<open>
  \<open>doit\<close>. The pool is created and shut down inside the call; the worker count must be
  positive. A submitted task runs in a worker thread: what it returns or raises, also
  \<open>SystemExit\<close>, stays in its future, which \<open>doit\<close> never reads. The model runs the
  tasks of a batch one after the other in the order of submission, which is the schedule
  of a pool with one worker.
\<close>

fun doit_loop :: "'r service \<Rightarrow> filesystem \<Rightarrow> (nat \<times> string) list \<Rightarrow> nat \<Rightarrow> string \<Rightarrow> int \<Rightarrow> bool \<Rightarrow> 'r world \<Rightarrow> bool \<times> 'r world" where
  "doit_loop api fs [] len_list directory folder_pid has_directory st = (has_directory, st)"
| "doit_loop api fs ((i, file) # rest) len_list directory folder_pid has_directory st =
     (let st1 = (if isfile fs (directory @ ''/'' @ file)
                 then snd (upload_file_and_print_status api fs i len_list directory file folder_pid st)
                 else st);
          has_directory1 = (if isdir fs (directory @ ''/'' @ file) then True else has_directory)
      in doit_loop api fs rest len_list directory folder_pid has_directory1 st1)"

definition doit :: "'r service \<Rightarrow> config \<Rightarrow> filesystem \<Rightarrow> string list \<Rightarrow> nat \<Rightarrow> string \<Rightarrow> int \<Rightarrow> 'r world \<Rightarrow> (exn + bool) \<times> 'r world" where
  "doit api cfg fs file_list len_list directory folder_pid st =
     (if usr_limit_concurrent cfg \<le> 0 then (Inl ValueError, st)
      else case doit_loop api fs (enumerate 0 file_list) len_list directory folder_pid False st of
             (has_directory, st1) \<Rightarrow> (Inr has_directory, st1))"

text \<open>
  \<open>main\<close> and the loop over \<open>directories\<close> in it. \<open>a\<close> is the address of the argument
  object. The first argument counts the nested calls of \<open>main\<close> the interpreter still
  allows. In \<open>arguments.basefolder or Config.TELEBOX_BASEFOLDER\<close> the configured folder
  is taken when the option is absent or 0. Line 61 lists \<open>arguments.dir\<close> twice, for the
  names and for their number; the file system does not change, so one listing stands for
  both. The nested call receives the object it was called with: \<open>args2 = arguments\<close> binds
  a second name to the same address, and the three assignments change the object there.
  The lines \<open>main\<close> prints are not modelled.
\<close>

fun main :: "nat \<Rightarrow> 'r service \<Rightarrow> config \<Rightarrow> filesystem \<Rightarrow> nat \<Rightarrow> 'r world \<Rightarrow> (exn + unit) \<times> 'r world"
and main_loop :: "nat \<Rightarrow> 'r service \<Rightarrow> config \<Rightarrow> filesystem \<Rightarrow> nat \<Rightarrow> string \<Rightarrow> string \<Rightarrow> int \<Rightarrow> entry list option \<Rightarrow> string list \<Rightarrow> 'r world \<Rightarrow> (exn + unit) \<times> 'r world" where
  "main 0 api cfg fs a st = (Inl RecursionError, st)"
| "main (Suc k) api cfg fs a st =
     (let currentDir = dir (objs st a);
          currentName = foldername (objs st a);
          folder_pid = (case basefolder (objs st a) of
                          Some b \<Rightarrow> if b \<noteq> 0 then b else telebox_basefolder cfg
                        | None \<Rightarrow> telebox_basefolder cfg)
      in case search api [] folder_pid st of
           (Inl e, st1) \<Rightarrow> (Inl e, st1)
         | (Inr folder_data, st1) \<Rightarrow>
         (case (if foldername (objs st1 a) \<noteq> ''upload''
                then (case listdir fs (dir (objs st1 a)) of
                        Inl e \<Rightarrow> (Inl e, st1)
                      | Inr names \<Rightarrow>
                          doit api cfg fs names (length names) (dir (objs st1 a)) folder_pid st1)
                else (Inr False, st1)) of
           (Inl e, st2) \<Rightarrow> (Inl e, st2)
         | (Inr _, st2) \<Rightarrow>
         (case listdir fs (dir (objs st2 a) @ ''/'' @ foldername (objs st2 a)) of
           Inl e \<Rightarrow> (Inl e, st2)
         | Inr names \<Rightarrow>
             main_loop k api cfg fs a currentDir currentName folder_pid folder_data
               (filter (\<lambda>d. isdir fs (path_join (dir (objs st2 a) @ ''/'' @ foldername (objs st2 a)) d)) names)
               st2)))"
| "main_loop k api cfg fs a currentDir currentName folder_pid folder_data [] st = (Inr (), st)"
| "main_loop k api cfg fs a currentDir currentName folder_pid folder_data (directory # rest) st =
     (let subfolder = (case folder_data of
                         Some (x # xs) \<Rightarrow> Some (filter (\<lambda>d. entry_name d = directory) (x # xs))
                       | _ \<Rightarrow> None)
      in case (case subfolder of
                 Some (s # ss) \<Rightarrow> (Inr (entry_id s), st)
               | _ \<Rightarrow>
                   (case create_folder_if_not_exists api directory folder_pid st of
                      (Inl e, st1) \<Rightarrow> (Inl e, st1)
                    | (Inr subfolder_pid, st1) \<Rightarrow>
                        if subfolder_pid = - 1
                        then (Inl (SystemExit ''Execution stopped. Folder not created''), st1)
                        else (Inr subfolder_pid, st1))) of
           (Inl e, st1) \<Rightarrow> (Inl e, st1)
         | (Inr subfolder_pid, st1) \<Rightarrow>
         (case listdir fs (currentDir @ ''/'' @ currentName @ ''/'' @ directory) of
           Inl e \<Rightarrow> (Inl e, st1)
         | Inr file_list \<Rightarrow>
         (case doit api cfg fs file_list (length file_list)
                 (currentDir @ ''/'' @ currentName @ ''/'' @ directory) subfolder_pid st1 of
           (Inl e, st2) \<Rightarrow> (Inl e, st2)
         | (Inr ret, st2) \<Rightarrow>
         (case (if ret
                then main k api cfg fs a
                       (st2\<lparr>objs := (objs st2)(a := \<lparr>dir = currentDir @ ''/'' @ currentName,
                                                     foldername = directory,
                                                     basefolder = Some subfolder_pid\<rparr>)\<rparr>)
                else (Inr (), st2)) of
           (Inl e, st3) \<Rightarrow> (Inl e, st3)
         | (Inr _, st3) \<Rightarrow>
             main_loop k api cfg fs a currentDir currentName folder_pid folder_data rest st3))))"

section \<open>Parts of \<open>main\<close> under names of their own\<close>

text \<open>
  Four pieces of the body of \<open>main\<close>, each the text of the function above, so that
  statements can speak of them: the base folder (line 55), the upload of the files that
  lie directly in \<open>arguments.dir\<close> (lines 60 and 61), the choice of the remote folder for
  one subdirectory (lines 69 to 80), and everything from line 63 on. The lemmas
  \<open>main_Suc\<close> and \<open>main_loop_Cons\<close> below show that \<open>main\<close> is made of them.
\<close>

definition base_pid :: "config \<Rightarrow> arguments \<Rightarrow> int" where
  "base_pid cfg args =
     (case basefolder args of
        Some b \<Rightarrow> if b \<noteq> 0 then b else telebox_basefolder cfg
      | None \<Rightarrow> telebox_basefolder cfg)"

definition root_flush :: "'r service \<Rightarrow> config \<Rightarrow> filesystem \<Rightarrow> nat \<Rightarrow> int \<Rightarrow> 'r world \<Rightarrow> (exn + bool) \<times> 'r world" where
  "root_flush api cfg fs a folder_pid st1 =
     (if foldername (objs st1 a) \<noteq> ''upload''
      then (case listdir fs (dir (objs st1 a)) of
              Inl e \<Rightarrow> (Inl e, st1)
            | Inr names \<Rightarrow>
                doit api cfg fs names (length names) (dir (objs st1 a)) folder_pid st1)
      else (Inr False, st1))"

definition subfolder_step :: "'r service \<Rightarrow> entry list option \<Rightarrow> string \<Rightarrow> int \<Rightarrow> 'r world \<Rightarrow> (exn + int) \<times> 'r world" where
  "subfolder_step api folder_data directory folder_pid st =
     (let subfolder = (case folder_data of
                         Some (x # xs) \<Rightarrow> Some (filter (\<lambda>d. entry_name d = directory) (x # xs))
                       | _ \<Rightarrow> None)
      in case subfolder of
           Some (s # ss) \<Rightarrow> (Inr (entry_id s), st)
         | _ \<Rightarrow>
             (case create_folder_if_not_exists api directory folder_pid st of
                (Inl e, st1) \<Rightarrow> (Inl e, st1)
              | (Inr subfolder_pid, st1) \<Rightarrow>
                  if subfolder_pid = - 1
                  then (Inl (SystemExit ''Execution stopped. Folder not created''), st1)
                  else (Inr subfolder_pid, st1)))"

definition descend :: "nat \<Rightarrow> 'r service \<Rightarrow> config \<Rightarrow> filesystem \<Rightarrow> nat \<Rightarrow> string \<Rightarrow> string \<Rightarrow> int \<Rightarrow> entry list option \<Rightarrow> 'r world \<Rightarrow> (exn + unit) \<times> 'r world" where
  "descend k api cfg fs a currentDir currentName folder_pid folder_data st2 =
     (case listdir fs (dir (objs st2 a) @ ''/'' @ foldername (objs st2 a)) of
        Inl e \<Rightarrow> (Inl e, st2)
      | Inr names \<Rightarrow>
          main_loop k api cfg fs a currentDir currentName folder_pid folder_data
            (filter (\<lambda>d. isdir fs (path_join (dir (objs st2 a) @ ''/'' @ foldername (objs st2 a)) d)) names)
            st2)"

section \<open>A remote service in memory and local trees\<close>

text \<open>
  To run the client on concrete inputs: a service that keeps its entries in a list, in
  the order they were made. A search returns the entries under the given parent whose
  name is the given one (every entry under the parent when the name is empty), cut to the
  page asked for. A folder creation and a finished upload append an entry with the
  next free identifier and report status 1. The prepare phase reports 600 for a digest
  and size already stored and 1 otherwise.
\<close>

record store =
  entries :: "entry list"
  next_id :: int
  known :: "(string \<times> nat) list"

definition store_search :: "int \<Rightarrow> string \<Rightarrow> nat \<Rightarrow> nat \<Rightarrow> store \<Rightarrow> exn + entry list option" where
  "store_search pid name pageNo pageSize s =
     Inr (Some (take pageSize (drop ((pageNo - 1) * pageSize)
       (filter (\<lambda>e. entry_pid e = pid \<and> (name = [] \<or> entry_name e = name)) (entries s)))))"

definition store_create :: "int \<Rightarrow> string \<Rightarrow> store \<Rightarrow> (exn + int \<times> int) \<times> store" where
  "store_create pid name s =
     (Inr (1, next_id s),
      s\<lparr>entries := entries s @ [\<lparr>entry_id = next_id s, entry_name = name,
                                  entry_type = ''dir'', entry_pid = pid\<rparr>],
        next_id := next_id s + 1\<rparr>)"

definition store_prepare :: "string \<Rightarrow> nat \<Rightarrow> store \<Rightarrow> (exn + int \<times> string) \<times> store" where
  "store_prepare md5 sz s =
     (Inr (if (md5, sz) \<in> set (known s) then 600 else 1, ''https://put/'' @ md5), s)"

definition store_put :: "string \<Rightarrow> string \<Rightarrow> store \<Rightarrow> (exn + unit) \<times> store" where
  "store_put url file s = (Inr (), s)"

definition store_finish :: "string \<Rightarrow> nat \<Rightarrow> int \<Rightarrow> string \<Rightarrow> store \<Rightarrow> (exn + int \<times> int) \<times> store" where
  "store_finish md5 sz pid name s =
     (Inr (1, next_id s),
      s\<lparr>entries := entries s @ [\<lparr>entry_id = next_id s, entry_name = name,
                                  entry_type = ''file'', entry_pid = pid\<rparr>],
        next_id := next_id s + 1,
        known := (md5, sz) # known s\<rparr>)"

definition store_api :: "store service" where
  "store_api = \<lparr>search_reply = store_search, create_reply = store_create,
                 prepare_reply = store_prepare, put_reply = store_put,
                 finish_reply = store_finish\<rparr>"

definition start :: "entry list \<Rightarrow> int \<Rightarrow> arguments \<Rightarrow> store world" where
  "start es n args =
     \<lparr>remote = \<lparr>entries = es, next_id = n, known = []\<rparr>, trace = [], objs = (\<lambda>_. args)\<rparr>"

definition cfg4 :: config where
  "cfg4 = \<lparr>telebox_basefolder = 1, usr_limit_concurrent = 4\<rparr>"

text \<open>
  The tree \<open>root/target/{a,b}\<close>: \<open>a\<close> is a directory with the files \<open>f1\<close> and \<open>f2\<close>,
  \<open>b\<close> is a file.
\<close>

definition tree1 :: filesystem where
  "tree1 = map_of
     [(''root'', Dir [''target'']),
      (''root/target'', Dir [''a'', ''b'']),
      (''root/target/a'', Dir [''f1'', ''f2'']),
      (''root/target/a/f1'', File 3 ''m1''),
      (''root/target/a/f2'', File 4 ''m2''),
      (''root/target/b'', File 5 ''m3'')]"


text \<open>An argument object, two remote entries named \<open>a\<close> under folder 100, and services
  whose prepare phase always reports a given status.\<close>

definition args1 :: arguments where
  "args1 = \<lparr>dir = ''root'', foldername = ''target'', basefolder = Some 100\<rparr>"

definition file_a :: entry where
  "file_a = \<lparr>entry_id = 7, entry_name = ''a'', entry_type = ''file'', entry_pid = 100\<rparr>"


definition fixed_prepare :: "int \<Rightarrow> store service" where
  "fixed_prepare status = store_api\<lparr>prepare_reply := (\<lambda>md5 sz s. (Inr (status, ''u''), s))\<rparr>"




text \<open>Services whose folder creation always reports a given status and identifier.\<close>

definition fixed_create :: "int \<Rightarrow> int \<Rightarrow> store service" where
  "fixed_create status dirId = store_api\<lparr>create_reply := (\<lambda>pid name s. (Inr (status, dirId), s))\<rparr>"

section \<open>Reading the record of a run\<close>

text \<open>The events a call added to the record, and the kinds of event.\<close>

definition new_events :: "'r world \<Rightarrow> 'r world \<Rightarrow> event list" where
  "new_events st st' = drop (length (trace st)) (trace st')"

fun is_create :: "event \<Rightarrow> bool" where
  "is_create (Create _ _ _) = True"
| "is_create _ = False"

fun is_transfer :: "event \<Rightarrow> bool" where
  "is_transfer (Put _ _ _) = True"
| "is_transfer _ = False"

fun is_finalize :: "event \<Rightarrow> bool" where
  "is_finalize (Finish _ _ _ _ _) = True"
| "is_finalize _ = False"

fun is_search :: "event \<Rightarrow> bool" where
  "is_search (Search _ _ _ _ _) = True"
| "is_search _ = False"

fun is_upload_event :: "event \<Rightarrow> bool" where
  "is_upload_event (UploadFile _ _) = True"
| "is_upload_event (Prepare _ _ _) = True"
| "is_upload_event (Put _ _ _) = True"
| "is_upload_event (Finish _ _ _ _ _) = True"
| "is_upload_event _ = False"

text \<open>The calls of \<open>upload_file\<close> in a list of events: local path and target folder.\<close>

fun uploads :: "event list \<Rightarrow> (string \<times> int) list" where
  "uploads [] = []"
| "uploads (UploadFile file pid # es) = (file, pid) # uploads es"
| "uploads (e # es) = uploads es"

text \<open>A search event asks for page 1 with page size 50.\<close>

fun page_ok :: "event \<Rightarrow> bool" where
  "page_ok (Search _ _ pageNo pageSize _) = (pageNo = 1 \<and> pageSize = 50)"
| "page_ok _ = True"

text \<open>
  The outcome that the driver owes to an event: a folder creation whose status is not 1
  makes \<open>Folder.create\<close> call \<open>sys.exit\<close>; one with status 1 and identifier -1 makes
  \<open>main\<close> do so. A list of events is clean when it owes nothing. A result and the events
  of a call are sound when every search is for page 1 of size 50 and either the events
  are clean, or the call ended with an error, its last event is the only one that owes
  an outcome, and the error is that outcome.
\<close>

fun fatal_outcome :: "event \<Rightarrow> exn option" where
  "fatal_outcome (Create _ _ (Inr (status, dirId))) =
     (if status \<noteq> 1 then Some (SystemExit ''Execution stopped. Cannot create folders'')
      else if dirId = - 1 then Some (SystemExit ''Execution stopped. Folder not created'')
      else None)"
| "fatal_outcome _ = None"

definition clean :: "event list \<Rightarrow> bool" where
  "clean es = list_all (\<lambda>e. fatal_outcome e = None) es"

definition sound :: "exn + 'a \<Rightarrow> event list \<Rightarrow> bool" where
  "sound r es =
     (list_all page_ok es \<and>
      (case r of
         Inr _ \<Rightarrow> clean es
       | Inl x \<Rightarrow> clean es \<or> (es \<noteq> [] \<and> clean (butlast es) \<and> fatal_outcome (last es) = Some x)))"





section \<open>Basic facts\<close>

lemma trace_emit [simp]: "trace (emit e st) = trace st @ [e]"
  and remote_emit [simp]: "remote (emit e st) = remote st"
  and objs_emit [simp]: "objs (emit e st) = objs st"
  by (simp_all add: emit_def)

lemma new_events_append: "trace st' = trace st @ es \<Longrightarrow> new_events st st' = es"
  by (simp add: new_events_def)

lemma uploads_append [simp]: "uploads (xs @ ys) = uploads xs @ uploads ys"
  by (induction xs rule: uploads.induct) simp_all

lemma main_loop_Cons:
  "main_loop k api cfg fs a currentDir currentName folder_pid folder_data (directory # rest) st =
     (case subfolder_step api folder_data directory folder_pid st of
        (Inl e, st1) \<Rightarrow> (Inl e, st1)
      | (Inr subfolder_pid, st1) \<Rightarrow>
      (case listdir fs (currentDir @ ''/'' @ currentName @ ''/'' @ directory) of
         Inl e \<Rightarrow> (Inl e, st1)
       | Inr file_list \<Rightarrow>
       (case doit api cfg fs file_list (length file_list)
               (currentDir @ ''/'' @ currentName @ ''/'' @ directory) subfolder_pid st1 of
          (Inl e, st2) \<Rightarrow> (Inl e, st2)
        | (Inr ret, st2) \<Rightarrow>
        (case (if ret
               then main k api cfg fs a
                      (st2\<lparr>objs := (objs st2)(a := \<lparr>dir = currentDir @ ''/'' @ currentName,
                                                    foldername = directory,
                                                    basefolder = Some subfolder_pid\<rparr>)\<rparr>)
               else (Inr (), st2)) of
           (Inl e, st3) \<Rightarrow> (Inl e, st3)
         | (Inr _, st3) \<Rightarrow>
             main_loop k api cfg fs a currentDir currentName folder_pid folder_data rest st3))))"
  by (simp add: subfolder_step_def Let_def)

lemma main_Suc:
  "main (Suc k) api cfg fs a st =
     (case search api [] (base_pid cfg (objs st a)) st of
        (Inl e, st1) \<Rightarrow> (Inl e, st1)
      | (Inr folder_data, st1) \<Rightarrow>
          (case root_flush api cfg fs a (base_pid cfg (objs st a)) st1 of
             (Inl e, st2) \<Rightarrow> (Inl e, st2)
           | (Inr _, st2) \<Rightarrow>
               descend k api cfg fs a (dir (objs st a)) (foldername (objs st a))
                 (base_pid cfg (objs st a)) folder_data st2))"
  unfolding main.simps Let_def root_flush_def descend_def base_pid_def
  by (rule refl)

lemma upload_event_page_ok: "is_upload_event e \<Longrightarrow> page_ok e"
  by (cases e) simp_all

lemma upload_event_clean: "is_upload_event e \<Longrightarrow> fatal_outcome e = None"
  by (cases e) simp_all

lemma uploads_sound: "list_all is_upload_event es \<Longrightarrow> list_all page_ok es \<and> clean es"
  by (induction es) (simp_all add: clean_def upload_event_page_ok upload_event_clean)

lemma sound_Nil [simp]: "sound r []"
  by (simp add: sound_def clean_def split: sum.splits)

lemma sound_append:
  assumes "list_all page_ok es1" and "clean es1" and "sound r es2"
  shows "sound r (es1 @ es2)"
  using assms
  by (cases "es2 = []") (auto simp: sound_def clean_def butlast_append split: sum.splits)

lemma upload_file_grows:
  "upload_file api fs file pid st = (r, st') \<Longrightarrow>
     \<exists>es. trace st' = trace st @ es \<and> list_all is_upload_event es \<and> objs st' = objs st"
  by (auto simp: upload_file_def Let_def prepare_def upload_def finish_upload_def
           split: prod.splits sum.splits if_splits)

lemma doit_loop_grows:
  "doit_loop api fs xs n d p h st = (b, st') \<Longrightarrow>
     \<exists>es. trace st' = trace st @ es \<and> list_all is_upload_event es \<and> objs st' = objs st"
proof (induction xs arbitrary: h st)
  case Nil
  then show ?case by simp
next
  case (Cons x xs)
  obtain i f where x: "x = (i, f)" by (cases x)
  show ?case
  proof (cases "isfile fs (d @ ''/'' @ f)")
    case False
    with Cons.prems x Cons.IH show ?thesis by (simp add: Let_def)
  next
    case True
    obtain r st1 where u: "upload_file api fs (d @ ''/'' @ f) p st = (r, st1)"
      by (cases "upload_file api fs (d @ ''/'' @ f) p st")
    from upload_file_grows [OF u] obtain es1 where
      es1: "trace st1 = trace st @ es1" "list_all is_upload_event es1" "objs st1 = objs st"
      by blast
    from Cons.prems x True u have
      "doit_loop api fs xs n d p (if isdir fs (d @ ''/'' @ f) then True else h) st1 = (b, st')"
      by (simp add: Let_def upload_file_and_print_status_def)
    from Cons.IH [OF this] obtain es2 where
      "trace st' = trace st1 @ es2" "list_all is_upload_event es2" "objs st' = objs st1"
      by blast
    with es1 show ?thesis by auto
  qed
qed

lemma doit_grows:
  "doit api cfg fs fl n d p st = (r, st') \<Longrightarrow>
     \<exists>es. trace st' = trace st @ es \<and> list_all is_upload_event es \<and> objs st' = objs st"
  by (auto simp: doit_def split: if_splits prod.splits dest: doit_loop_grows)

lemma search_sound:
  "search api n p st = (r, st') \<Longrightarrow>
     \<exists>es. trace st' = trace st @ es \<and> list_all page_ok es \<and> clean es \<and> objs st' = objs st"
  by (auto simp: search_def Let_def clean_def)

lemma resolve_sound:
  "create_folder_if_not_exists api n p st = (r, st') \<Longrightarrow>
     \<exists>es. trace st' = trace st @ es \<and> objs st' = objs st \<and> list_all page_ok es \<and>
       (case r of
          Inl x \<Rightarrow> sound (Inl x :: exn + unit) es
        | Inr i \<Rightarrow> if i = - 1
                   then sound (Inl (SystemExit ''Execution stopped. Folder not created'') :: exn + unit) es
                   else clean es)"
  by (auto simp: create_folder_if_not_exists_def folder_exists_def search_def create_def Let_def
        sound_def clean_def
           split: option.splits list.splits sum.splits prod.splits if_splits)

lemma subfolder_step_sound:
  "subfolder_step api fd d p st = (r, st') \<Longrightarrow>
     \<exists>es. trace st' = trace st @ es \<and> objs st' = objs st \<and> sound r es"
proof -
  assume a: "subfolder_step api fd d p st = (r, st')"
  show ?thesis
  proof (cases "\<exists>s ss. (case fd of Some (x # xs) \<Rightarrow> Some (filter (\<lambda>e. entry_name e = d) (x # xs)) | _ \<Rightarrow> None) = Some (s # ss)")
    case True
    with a show ?thesis
      by (auto simp: subfolder_step_def Let_def sound_def clean_def)
  next
    case False
    obtain r1 st1 where c: "create_folder_if_not_exists api d p st = (r1, st1)"
      by (cases "create_folder_if_not_exists api d p st")
    from False a c have r: "st' = st1 \<and> r = (case r1 of Inl e \<Rightarrow> Inl e | Inr i \<Rightarrow>
        if i = - 1 then Inl (SystemExit ''Execution stopped. Folder not created'') else Inr i)"
      by (auto simp: subfolder_step_def Let_def split: option.splits list.splits sum.splits if_splits)
    from resolve_sound [OF c] r show ?thesis
      by (auto simp: sound_def split: sum.splits if_splits)
  qed
qed

lemma root_flush_sound:
  "root_flush api cfg fs a p st = (r, st') \<Longrightarrow>
     \<exists>es. trace st' = trace st @ es \<and> objs st' = objs st \<and> list_all page_ok es \<and> clean es"
  by (auto simp: root_flush_def clean_def split: if_splits sum.splits dest!: doit_grows uploads_sound)




lemma sound_Inr: "sound (Inr x) es \<Longrightarrow> list_all page_ok es \<and> clean es"
  by (simp add: sound_def)

lemma sound_clean: "list_all page_ok es \<Longrightarrow> clean es \<Longrightarrow> sound r es"
  by (simp add: sound_def split: sum.splits)

lemma sound_Inl: "sound (Inl x :: exn + 'a) es \<Longrightarrow> sound (Inl x :: exn + 'b) es"
  by (simp add: sound_def)

lemma main_loop_sound:
  assumes main_k: "\<And>st r st'. main k api cfg fs a st = (r, st') \<Longrightarrow>
                     \<exists>es. trace st' = trace st @ es \<and> sound r es"
  shows "main_loop k api cfg fs a cd cn fp fd ds st = (r, st') \<Longrightarrow>
           \<exists>es. trace st' = trace st @ es \<and> sound r es"
proof (induction ds arbitrary: st)
  case Nil
  then show ?case by auto
next
  case (Cons d ds)
  note run = Cons.prems [unfolded main_loop_Cons]
  obtain r1 st1 where s1: "subfolder_step api fd d fp st = (r1, st1)"
    by (cases "subfolder_step api fd d fp st")
  from subfolder_step_sound [OF s1] obtain es1 where
    e1: "trace st1 = trace st @ es1" "sound r1 es1" by blast
  show ?case
  proof (cases r1)
    case (Inl e)
    with run s1 have "r = Inl e" "st' = st1" by simp_all
    with e1 Inl show ?thesis by (auto intro: sound_Inl)
  next
    case (Inr pid)
    with e1 have c1: "list_all page_ok es1" "clean es1" by (auto dest: sound_Inr)
    show ?thesis
    proof (cases "listdir fs (cd @ ''/'' @ cn @ ''/'' @ d)")
      case (Inl e)
      with run s1 Inr have "r = Inl e" "st' = st1" by simp_all
      with e1 c1 show ?thesis by (auto intro: sound_clean)
    next
      case fl: (Inr file_list)
      obtain r2 st2 where s2: "doit api cfg fs file_list (length file_list)
          (cd @ ''/'' @ cn @ ''/'' @ d) pid st1 = (r2, st2)"
        by (cases "doit api cfg fs file_list (length file_list) (cd @ ''/'' @ cn @ ''/'' @ d) pid st1")
      from doit_grows [OF s2] obtain es2 where
        e2: "trace st2 = trace st1 @ es2" "list_all is_upload_event es2" by blast
      then have c2: "list_all page_ok es2" "clean es2" by (auto dest: uploads_sound)
      have c12: "list_all page_ok (es1 @ es2)" "clean (es1 @ es2)"
        using c1 c2 by (simp_all add: clean_def)
      show ?thesis
      proof (cases r2)
        case (Inl e)
        with run s1 Inr fl s2 have "r = Inl e" "st' = st2" by simp_all
        with e1 e2 c12 show ?thesis by (auto intro: sound_clean)
      next
        case ret: (Inr ret)
        let ?call = "if ret
               then main k api cfg fs a
                      (st2\<lparr>objs := (objs st2)(a := \<lparr>dir = cd @ ''/'' @ cn,
                                                    foldername = d,
                                                    basefolder = Some pid\<rparr>)\<rparr>)
               else (Inr (), st2)"
        obtain r3 st3 where s3: "?call = (r3, st3)" by (cases ?call)
        have "\<exists>es3. trace st3 = trace st2 @ es3 \<and> sound r3 es3"
        proof (cases ret)
          case True
          with s3 main_k [of "st2\<lparr>objs := (objs st2)(a := \<lparr>dir = cd @ ''/'' @ cn,
                 foldername = d, basefolder = Some pid\<rparr>)\<rparr>" r3 st3]
          show ?thesis by simp
        next
          case False
          with s3 show ?thesis by auto
        qed
        then obtain es3 where e3: "trace st3 = trace st2 @ es3" "sound r3 es3" by blast
        show ?thesis
        proof (cases r3)
          case (Inl e)
          with run s1 Inr fl s2 ret s3 have "r = Inl e" "st' = st3" by simp_all
          moreover have "sound r3 ((es1 @ es2) @ es3)"
            using c12 e3 by (intro sound_append)
          ultimately show ?thesis using e1 e2 e3 Inl by (auto intro: sound_Inl)
        next
          case u: (Inr u)
          with run s1 Inr fl s2 ret s3
          have "main_loop k api cfg fs a cd cn fp fd ds st3 = (r, st')" by simp
          from Cons.IH [OF this] obtain es4 where
            e4: "trace st' = trace st3 @ es4" "sound r es4" by blast
          from e3 u have c3: "list_all page_ok es3" "clean es3" by (auto dest: sound_Inr)
          have "list_all page_ok (es1 @ es2 @ es3)" "clean (es1 @ es2 @ es3)"
            using c1 c2 c3 by (simp_all add: clean_def)
          then have "sound r ((es1 @ es2 @ es3) @ es4)"
            using e4 by (intro sound_append)
          with e1 e2 e3 e4 show ?thesis by auto
        qed
      qed
    qed
  qed
qed

lemma main_sound:
  "main k api cfg fs a st = (r, st') \<Longrightarrow> \<exists>es. trace st' = trace st @ es \<and> sound r es"
proof (induction k arbitrary: st r st')
  case 0
  then show ?case by auto
next
  case (Suc k)
  note run = Suc.prems [unfolded main_Suc]
  let ?p = "base_pid cfg (objs st a)"
  obtain r1 st1 where s1: "search api [] ?p st = (r1, st1)"
    by (cases "search api [] ?p st")
  from search_sound [OF s1] obtain es1 where
    e1: "trace st1 = trace st @ es1" "list_all page_ok es1" "clean es1" by blast
  show ?case
  proof (cases r1)
    case (Inl e)
    with run s1 have "r = Inl e" "st' = st1" by simp_all
    with e1 show ?thesis by (auto intro: sound_clean)
  next
    case fd: (Inr folder_data)
    obtain r2 st2 where s2: "root_flush api cfg fs a ?p st1 = (r2, st2)"
      by (cases "root_flush api cfg fs a ?p st1")
    from root_flush_sound [OF s2] obtain es2 where
      e2: "trace st2 = trace st1 @ es2" "list_all page_ok es2" "clean es2" by blast
    have c12: "list_all page_ok (es1 @ es2)" "clean (es1 @ es2)"
      using e1 e2 by (simp_all add: clean_def)
    show ?thesis
    proof (cases r2)
      case (Inl e)
      with run s1 fd s2 have "r = Inl e" "st' = st2" by simp_all
      with e1 e2 c12 show ?thesis by (auto intro: sound_clean)
    next
      case (Inr b)
      with run s1 fd s2 have d: "descend k api cfg fs a (dir (objs st a)) (foldername (objs st a))
          ?p folder_data st2 = (r, st')" by simp
      have "\<exists>es3. trace st' = trace st2 @ es3 \<and> sound r es3"
      proof (cases "listdir fs (dir (objs st2 a) @ ''/'' @ foldername (objs st2 a))")
        case (Inl e)
        with d show ?thesis by (auto simp: descend_def)
      next
        case (Inr names)
        with d show ?thesis
          by (auto simp: descend_def intro: main_loop_sound [OF Suc.IH])
      qed
      then obtain es3 where e3: "trace st' = trace st2 @ es3" "sound r es3" by blast
      have "sound r ((es1 @ es2) @ es3)" using c12 e3 by (intro sound_append)
      with e1 e2 e3 show ?thesis by auto
    qed
  qed
qed
















section \<open>The three phases of an upload\<close>

text \<open>
  What \<open>upload_file\<close> itself does, for a file that can be read, is decided by the status
  of the prepare reply. With status 600 it returns 1 and the prepare request is the last
  thing it did. With a status other than 1 and 600 it calls \<open>sys.exit\<close>, again right
  after the prepare request. The transfer request is sent exactly when the status is 1,
  and a finish request only then.
\<close>

lemma upload_file_by_prepare_status:
  assumes "getsize fs file = Inr sz" and "get_md5_of_first_10mb fs file = Inr md5"
    and "prepare_reply api md5 sz (remote st) = (Inr (status, signUrl), r)"
  shows "(status = 600 \<longrightarrow>
            upload_file api fs file folder_id st =
              (Inr 1, emit (Prepare md5 sz (Inr (status, signUrl)))
                        (emit (UploadFile file folder_id) st\<lparr>remote := r\<rparr>)))
       \<and> (status \<noteq> 1 \<and> status \<noteq> 600 \<longrightarrow>
            upload_file api fs file folder_id st =
              (Inl (SystemExit ''Prepare: Execution stopped. Cannot upload files''),
               emit (Prepare md5 sz (Inr (status, signUrl)))
                 (emit (UploadFile file folder_id) st\<lparr>remote := r\<rparr>)))
       \<and> (list_ex is_transfer (new_events st (snd (upload_file api fs file folder_id st)))
            \<longleftrightarrow> status = 1)
       \<and> (list_ex is_finalize (new_events st (snd (upload_file api fs file folder_id st)))
            \<longrightarrow> status = 1)"
  using assms
  by (auto simp: upload_file_def Let_def prepare_def upload_def finish_upload_def new_events_def
           split: prod.splits sum.splits if_splits)

text \<open>
  Claim C4 does not hold of the code. \<open>upload_file\<close> calls \<open>sys.exit\<close> when the
  prepare status is neither 1 nor 600, but its only caller is a task of the pool of
  \<open>doit\<close>: the \<open>SystemExit\<close> stays in the future of that task, which nobody reads.
  With a remote that answers every prepare request with status 403, the upload of \<open>f1\<close>
  ends in \<open>sys.exit\<close> right after its prepare request, the upload of \<open>f2\<close> is tried
  all the same, and the run of \<open>main\<close> ends normally. The other two parts of the claim
  hold, by the lemma above.
\<close>

theorem prepare_failure_does_not_stop_run:
  "fst (upload_file (fixed_prepare 403) tree1 ''root/target/a/f1'' 200 (start [] 201 args1))
     = Inl (SystemExit ''Prepare: Execution stopped. Cannot upload files'')
   \<and> fst (main 3 (fixed_prepare 403) cfg4 tree1 0 (start [] 200 args1)) = Inr ()
   \<and> trace (snd (main 3 (fixed_prepare 403) cfg4 tree1 0 (start [] 200 args1)))
       = [Search 100 [] 1 50 (Inr (Some [])),
          Search 100 ''a'' 1 50 (Inr (Some [])), Create 100 ''a'' (Inr (1, 200)),
          UploadFile ''root/target/a/f1'' 200, Prepare ''m1'' 3 (Inr (403, ''u'')),
          UploadFile ''root/target/a/f2'' 200, Prepare ''m2'' 4 (Inr (403, ''u''))]"
  by code_simp

section \<open>Resolving a folder\<close>







section \<open>Listings\<close>



section \<open>A folder creation that fails\<close>

text \<open>
  Claim C7. In every run of \<open>main\<close>, nested calls included: if a folder creation was
  answered with a status other than 1, or with status 1 and the identifier -1, then that
  request is the last event of the run (no upload, search or creation follows it) and
  the run ends in \<open>sys.exit\<close>, with the message of \<open>Folder.create\<close> in the first case
  and the message of \<open>main\<close> in the second.
\<close>

theorem failed_create_ends_run:
  assumes run: "main k api cfg fs a st = (r, st')"
    and ev: "new_events st st' = es1 @ Create pid name (Inr (status, dirId)) # es2"
    and bad: "status \<noteq> 1 \<or> dirId = - 1"
  shows "es2 = [] \<and>
         r = Inl (SystemExit (if status \<noteq> 1 then ''Execution stopped. Cannot create folders''
                              else ''Execution stopped. Folder not created''))"
proof -
  let ?c = "Create pid name (Inr (status, dirId))"
  from main_sound [OF run] obtain es where es: "trace st' = trace st @ es" "sound r es" by blast
  with ev have eq: "es = es1 @ ?c # es2" by (simp add: new_events_append)
  from bad have f: "fatal_outcome ?c =
      Some (SystemExit (if status \<noteq> 1 then ''Execution stopped. Cannot create folders''
                        else ''Execution stopped. Folder not created''))"
    by auto
  then have nc: "\<not> clean es" unfolding eq by (simp add: clean_def)
  with es(2) obtain x where x: "r = Inl x" "clean (butlast es)" "fatal_outcome (last es) = Some x"
    by (auto simp: sound_def split: sum.splits)
  have e2: "es2 = []"
  proof (rule ccontr)
    assume "es2 \<noteq> []"
    then have "butlast es = es1 @ ?c # butlast es2" unfolding eq by (simp add: butlast_append)
    with x(2) f show False by (simp add: clean_def)
  qed
  with x(3) f have "x = SystemExit (if status \<noteq> 1 then ''Execution stopped. Cannot create folders''
                        else ''Execution stopped. Folder not created'')"
    unfolding eq by simp
  with e2 x(1) show ?thesis by simp
qed

theorem failed_create_ends_run_witness:
  "new_events (start [] 200 args1) (snd (main 3 (fixed_create 0 0) cfg4 tree1 0 (start [] 200 args1)))
     = [Search 100 [] 1 50 (Inr (Some [])), Search 100 ''a'' 1 50 (Inr (Some []))]
       @ Create 100 ''a'' (Inr (0, 0)) # []
   \<and> fst (main 3 (fixed_create 0 0) cfg4 tree1 0 (start [] 200 args1))
       = Inl (SystemExit ''Execution stopped. Cannot create folders'')
   \<and> new_events (start [] 200 args1) (snd (main 3 (fixed_create 1 (- 1)) cfg4 tree1 0 (start [] 200 args1)))
     = [Search 100 [] 1 50 (Inr (Some [])), Search 100 ''a'' 1 50 (Inr (Some []))]
       @ Create 100 ''a'' (Inr (1, - 1)) # []
   \<and> fst (main 3 (fixed_create 1 (- 1)) cfg4 tree1 0 (start [] 200 args1))
       = Inl (SystemExit ''Execution stopped. Folder not created'')"
proof -
  let ?st = "start [] 200 args1"
  let ?pre = "[Search 100 [] 1 50 (Inr (Some [])), Search 100 ''a'' 1 50 (Inr (Some []))]"
  have r1: "main 3 (fixed_create 0 0) cfg4 tree1 0 ?st
              = (fst (main 3 (fixed_create 0 0) cfg4 tree1 0 ?st), snd (main 3 (fixed_create 0 0) cfg4 tree1 0 ?st))"
    by simp
  have e1: "new_events ?st (snd (main 3 (fixed_create 0 0) cfg4 tree1 0 ?st))
              = ?pre @ Create 100 ''a'' (Inr (0, 0)) # []"
    by code_simp
  have r2: "main 3 (fixed_create 1 (- 1)) cfg4 tree1 0 ?st
              = (fst (main 3 (fixed_create 1 (- 1)) cfg4 tree1 0 ?st), snd (main 3 (fixed_create 1 (- 1)) cfg4 tree1 0 ?st))"
    by simp
  have e2: "new_events ?st (snd (main 3 (fixed_create 1 (- 1)) cfg4 tree1 0 ?st))
              = ?pre @ Create 100 ''a'' (Inr (1, - 1)) # []"
    by code_simp
  show ?thesis
    using failed_create_ends_run [OF r1 e1] failed_create_ends_run [OF r2 e2] e1 e2
    by simp
qed

section \<open>The files beside the named folder\<close>



section \<open>The argument object across a nested call\<close>




section \<open>The tree \<open>root/target/{a,b}\<close>\<close>




section \<open>A cached entry that is not a directory\<close>

text \<open>
  Claim C6 does not hold of the code. The listing of the base folder 100 holds one
  entry named \<open>a\<close>, of type \<open>file\<close>, with identifier 7. For the local directory \<open>a\<close>
  the driver takes that identifier: it sends no search for \<open>a\<close> and no create request,
  and uploads \<open>f1\<close> and \<open>f2\<close> with 7 as their folder. \<open>folder_exists\<close>, the other
  lookup, does test the type.
\<close>

theorem cached_file_entry_is_reused:
  "entry_type file_a = ''file'' \<and> entry_id file_a = 7
   \<and> fst (main 3 store_api cfg4 tree1 0 (start [file_a] 200 args1)) = Inr ()
   \<and> filter is_search (trace (snd (main 3 store_api cfg4 tree1 0 (start [file_a] 200 args1))))
       = [Search 100 [] 1 50 (Inr (Some [file_a]))]
   \<and> \<not> list_ex is_create (trace (snd (main 3 store_api cfg4 tree1 0 (start [file_a] 200 args1))))
   \<and> uploads (trace (snd (main 3 store_api cfg4 tree1 0 (start [file_a] 200 args1))))
       = [(''root/target/a/f1'', 7), (''root/target/a/f2'', 7)]"
  by code_simp

end
